theory Spec2Isabelle
  imports Complex_Main
begin

section \<open>Black-box finite-difference Newton solver (oomph-lib)\<close>

text \<open>
  A shallow embedding of \<^verbatim>\<open>src/generic/black_box_newton_solver.cc\<close>, namespace
  \<^verbatim>\<open>BlackBoxFDNewtonSolver\<close>: the driver \<^verbatim>\<open>black_box_fd_newton_solve\<close> and its helper
  \<^verbatim>\<open>line_search\<close>.

  Numbers. A C++ \<^verbatim>\<open>double\<close> is modelled as a \<^typ>\<open>real\<close>: every arithmetic operation
  and every comparison of the source is the same operation on reals, without rounding,
  overflow, infinities or NaN. The decimal constants of the source are the reals they
  denote (\<^verbatim>\<open>1.0e-4\<close> is \<open>1 / 10 ^ 4\<close>). The \<^verbatim>\<open>unsigned\<close> counters are naturals: the loop
  counter and \<^verbatim>\<open>N_iter_taken\<close> never exceed \<^verbatim>\<open>Max_iter\<close>, so they never wrap.

  Division. In HOL \<open>x / 0 = 0\<close>, in IEEE arithmetic it is an infinity or NaN. The
  divisions of the source have a non-zero divisor wherever the properties below depend
  on the value of the quotient: \<open>lambda_min\<close> is computed only after the slope was found negative,
  which makes the largest relative step positive (\<open>lambda_min_pos\<close>); the divisors of
  the quadratic and cubic models are non-zero while the multiplier decreases. The one
  exception is \<^verbatim>\<open>-slope / (2.0 * b_poly)\<close> at \<open>b_poly = 0\<close>, where the model proposes
  \<open>0\<close> and the source an infinity: line 363 and line 355 bring either back between
  one tenth and one half of the current multiplier, which is all that is used here.

  Vectors. A \<^verbatim>\<open>Vector<double>\<close> is a \<^typ>\<open>real list\<close>. The source loops over indices
  \<^verbatim>\<open>i < n\<close>; the model folds over \<open>[0..<n]\<close> and reads with \<open>!\<close> and writes with
  \<open>list_update\<close>, as the source does. The source never checks that the vectors it
  indexes have \<open>n\<close> entries (the caller guarantees it); the theorems assume it where
  it matters.
\<close>

subsection \<open>Data model\<close>

type_synonym vector = "real list"

text \<open>
  Modelled from the spec: \<^verbatim>\<open>DenseDoubleMatrix\<close> (declared in \<^verbatim>\<open>matrices.h\<close>, not among
  the sources) is a dense \<open>N \<times> N\<close> real matrix; \<open>entry J j i\<close> is the source's
  \<^verbatim>\<open>jacobian(j, i)\<close>, row \<open>j\<close> and column \<open>i\<close>.
\<close>

record dense_double_matrix =
  nrow :: nat
  ncol :: nat
  entry :: "nat \<Rightarrow> nat \<Rightarrow> real"

definition DenseDoubleMatrix :: "nat \<Rightarrow> dense_double_matrix" where
  "DenseDoubleMatrix n = \<lparr>nrow = n, ncol = n, entry = (\<lambda>j i. 0)\<rparr>"

definition set_entry :: "nat \<Rightarrow> nat \<Rightarrow> real \<Rightarrow> dense_double_matrix \<Rightarrow> dense_double_matrix" where
  "set_entry j i v J = J\<lparr>entry := (entry J)(j := (entry J j)(i := v))\<rparr>"

text \<open>
  The two \<^verbatim>\<open>OomphLibError\<close>s thrown in the file, named as the specification names them,
  with the number each message prints; \<open>LinearSolverError\<close> stands for whatever the dense
  linear solver throws (\<^verbatim>\<open>jacobian.solve\<close>, a collaborator that is not among the sources:
  it is a parameter of the model, \<open>None\<close> when it throws); \<open>DerefEnd\<close> is the undefined
  behaviour of dereferencing \<^verbatim>\<open>std::max_element\<close> of an empty range.
\<close>

datatype error =
    ConvergenceFailure nat
  | RoundoffError real
  | LinearSolverError
  | DerefEnd

text \<open>The callbacks: \<^verbatim>\<open>residual_fct(params, unknowns, residuals)\<close> fills the residuals,
  \<^verbatim>\<open>jacobian_fct(params, unknowns, jacobian)\<close> fills the Jacobian; a null
  \<^verbatim>\<open>jacobian_fct\<close> is \<open>None\<close>.\<close>

type_synonym ResidualFctPt = "vector \<Rightarrow> vector \<Rightarrow> vector"
type_synonym JacobianFctPt = "vector \<Rightarrow> vector \<Rightarrow> dense_double_matrix"
type_synonym LinearSolve = "dense_double_matrix \<Rightarrow> vector \<Rightarrow> vector option"

text \<open>The namespace's global configuration, and the state a call reads and writes.\<close>

record solver_config =
  Max_iter :: nat
  Doc_Progress :: bool
  FD_step :: real
  Tol :: real
  Use_step_length_control :: bool

definition default_config :: solver_config where
  "default_config = \<lparr>Max_iter = 20, Doc_Progress = False, FD_step = 1 / 10 ^ 8,
     Tol = 1 / 10 ^ 8, Use_step_length_control = False\<rparr>"

record solver_state =
  unknowns :: vector
  N_iter_taken :: nat
  warnings :: "string list"

text \<open>The in/out arguments of \<^verbatim>\<open>line_search\<close>, and the warnings it has issued.\<close>

record ls_state =
  ls_newton_dir :: vector
  ls_x :: vector
  ls_half_residual_squared :: real
  ls_warnings :: "string list"

subsection \<open>The loops over vector entries\<close>

text \<open>\<^verbatim>\<open>for (i = 0; i < n; i++) sum += a[i] * b[i];\<close> starting from \<open>0\<close>.\<close>

definition sum_products :: "nat \<Rightarrow> vector \<Rightarrow> vector \<Rightarrow> real" where
  "sum_products n a b = fold (\<lambda>i s. s + a ! i * b ! i) [0..<n] 0"

text \<open>The merit function: half the sum of the squared residuals (lines 293 to 298).\<close>

definition half_sum_squares :: "nat \<Rightarrow> vector \<Rightarrow> real" where
  "half_sum_squares n residuals = sum_products n residuals residuals * 0.5"

subsection \<open>Line search\<close>

definition min_fct_decrease :: real where
  "min_fct_decrease = 1 / 10 ^ 4"

definition convergence_tol_on_x :: real where
  "convergence_tol_on_x = 1 / 10 ^ 16"

text \<open>Lines 249 to 261: the direction is scaled down when it is longer than \<open>stpmax\<close>.\<close>

definition cap_newton_dir :: "nat \<Rightarrow> real \<Rightarrow> vector \<Rightarrow> vector" where
  "cap_newton_dir n stpmax newton_dir =
     (let sum = sqrt (sum_products n newton_dir newton_dir)
      in if sum > stpmax
         then fold (\<lambda>i d. d[i := d ! i * (stpmax / sum)]) [0..<n] newton_dir
         else newton_dir)"

text \<open>Lines 274 to 280: the largest relative entry of the direction.\<close>

definition max_rel_step :: "nat \<Rightarrow> vector \<Rightarrow> vector \<Rightarrow> real" where
  "max_rel_step n newton_dir x_old =
     fold (\<lambda>i test. let temp = \<bar>newton_dir ! i\<bar> / max \<bar>x_old ! i\<bar> 1
                     in if temp > test then temp else test) [0..<n] 0"

definition lambda_min_of :: "nat \<Rightarrow> vector \<Rightarrow> vector \<Rightarrow> real" where
  "lambda_min_of n newton_dir x_old = convergence_tol_on_x / max_rel_step n newton_dir x_old"

text \<open>Lines 285 to 288 and line 302.\<close>

definition trial_point :: "nat \<Rightarrow> vector \<Rightarrow> real \<Rightarrow> vector \<Rightarrow> vector \<Rightarrow> vector" where
  "trial_point n x_old lambda newton_dir x =
     fold (\<lambda>i x. x[i := x_old ! i + lambda * newton_dir ! i]) [0..<n] x"

definition restore_point :: "nat \<Rightarrow> vector \<Rightarrow> vector \<Rightarrow> vector" where
  "restore_point n x_old x = fold (\<lambda>i x. x[i := x_old ! i]) [0..<n] x"

text \<open>
  Lines 317 to 359: the step multiplier proposed after a rejected trial, from the
  quadratic model on the first backtrack (\<open>lambda = 1\<close>) and from the cubic model
  afterwards. \<open>f\<close> is the merit at the rejected trial point, \<open>f_old\<close> the merit at
  \<open>x_old\<close>; \<open>lambda_aux\<close> and \<open>f_aux\<close> are the previous trial.
\<close>

definition proposed_lambda :: "real \<Rightarrow> real \<Rightarrow> real \<Rightarrow> real \<Rightarrow> real \<Rightarrow> real \<Rightarrow> real" where
  "proposed_lambda lambda lambda_aux f_aux f f_old slope =
     (if lambda = 1 then - slope / (2 * (f - f_old - slope))
      else
        let r1 = f - f_old - lambda * slope;
            r2 = f_aux - f_old - lambda_aux * slope;
            a_poly = (r1 / (lambda * lambda) - r2 / (lambda_aux * lambda_aux)) /
                     (lambda - lambda_aux);
            b_poly = (- lambda_aux * r1 / (lambda * lambda) +
                      lambda * r2 / (lambda_aux * lambda_aux)) / (lambda - lambda_aux);
            p = (if a_poly = 0 then - slope / (2 * b_poly)
                 else
                   let discriminant = b_poly * b_poly - 3 * a_poly * slope
                   in if discriminant < 0 then 0.5 * lambda
                      else if b_poly \<le> 0 then (- b_poly + sqrt discriminant) / (3 * a_poly)
                      else - slope / (b_poly + sqrt discriminant))
        in if p > 0.5 * lambda then 0.5 * lambda else p)"

text \<open>Line 363.\<close>

definition next_lambda :: "real \<Rightarrow> real \<Rightarrow> real \<Rightarrow> real \<Rightarrow> real \<Rightarrow> real \<Rightarrow> real" where
  "next_lambda lambda lambda_aux f_aux f f_old slope =
     max (proposed_lambda lambda lambda_aux f_aux f f_old slope) (0.1 * lambda)"

definition stagnation_warning :: string where
  "stagnation_warning = ''Warning: Line search converged on x only!''"

text \<open>
  Lines 283 to 364, the \<^verbatim>\<open>while (true)\<close> loop. Nothing in the loop bounds the number of
  passes, so the model is a partial function: \<open>None\<close> is a loop that never returns.
  The loop variables are \<open>lambda\<close>, \<open>lambda_aux\<close>, \<open>f_aux\<close> and the in/out arguments;
  the loop does not throw.
\<close>

partial_function (option) backtrack ::
  "ResidualFctPt \<Rightarrow> vector \<Rightarrow> nat \<Rightarrow> vector \<Rightarrow> real \<Rightarrow> real \<Rightarrow> real \<Rightarrow>
   real \<Rightarrow> real \<Rightarrow> real \<Rightarrow> ls_state \<Rightarrow> ls_state option" where
  "backtrack residual_fct params n x_old half_residual_squared_old slope lambda_min
     lambda lambda_aux f_aux s =
     (let x = trial_point n x_old lambda (ls_newton_dir s) (ls_x s);
          residuals = residual_fct params x;
          half_residual_squared = half_sum_squares n residuals
      in if lambda < lambda_min then
           Some (s\<lparr>ls_x := restore_point n x_old x,
                   ls_half_residual_squared := half_residual_squared,
                   ls_warnings := ls_warnings s @ [stagnation_warning]\<rparr>)
         else if half_residual_squared \<le>
                 half_residual_squared_old + min_fct_decrease * lambda * slope then
           Some (s\<lparr>ls_x := x, ls_half_residual_squared := half_residual_squared\<rparr>)
         else
           backtrack residual_fct params n x_old half_residual_squared_old slope lambda_min
             (next_lambda lambda lambda_aux f_aux half_residual_squared
                half_residual_squared_old slope)
             lambda half_residual_squared
             (s\<lparr>ls_x := x, ls_half_residual_squared := half_residual_squared\<rparr>))"

text \<open>
  \<^verbatim>\<open>line_search\<close>, lines 233 to 365. \<open>n\<close> is \<^verbatim>\<open>x_old.size()\<close>. The result is \<open>None\<close> when
  the loop never returns, \<open>Some (Inl (e, s))\<close> when \<open>e\<close> is thrown with the in/out
  arguments in state \<open>s\<close>, \<open>Some (Inr s)\<close> on a normal return.
\<close>

definition line_search ::
  "vector \<Rightarrow> real \<Rightarrow> vector \<Rightarrow> ResidualFctPt \<Rightarrow> vector \<Rightarrow> ls_state \<Rightarrow> real \<Rightarrow>
   (error \<times> ls_state + ls_state) option" where
  "line_search x_old half_residual_squared_old gradient residual_fct params s stpmax =
     (let n = length x_old;
          newton_dir = cap_newton_dir n stpmax (ls_newton_dir s);
          s1 = s\<lparr>ls_newton_dir := newton_dir\<rparr>;
          slope = sum_products n gradient newton_dir
      in if slope \<ge> 0 then Some (Inl (RoundoffError slope, s1))
         else
           let lambda_min = lambda_min_of n newton_dir x_old
           in map_option Inr
                (backtrack residual_fct params n x_old half_residual_squared_old slope
                   lambda_min 1 0 0 s1))"

subsection \<open>Newton driver\<close>

text \<open>
  Modelled from the spec: the comparator \<^verbatim>\<open>AbsCmp<double>\<close> (declared in
  \<^verbatim>\<open>oomph_utilities.h\<close>, not among the sources) orders by absolute value, so that
  line 110 computes the maximum absolute residual.
\<close>

definition AbsCmp :: "real \<Rightarrow> real \<Rightarrow> bool" where
  "AbsCmp a b = (\<bar>a\<bar> < \<bar>b\<bar>)"

text \<open>\<^verbatim>\<open>std::max_element\<close>: the first largest element; \<open>None\<close> is the end iterator of
  an empty range.\<close>

fun max_element :: "('a \<Rightarrow> 'a \<Rightarrow> bool) \<Rightarrow> 'a list \<Rightarrow> 'a option" where
  "max_element cmp [] = None"
| "max_element cmp (first # rest) =
     Some (fold (\<lambda>b largest. if cmp largest b then b else largest) rest first)"

text \<open>Line 110; \<open>None\<close> is the dereferenced end iterator.\<close>

definition max_res_of :: "vector \<Rightarrow> real option" where
  "max_res_of residuals = map_option abs (max_element AbsCmp residuals)"

text \<open>Line 105.\<close>

definition max_step_of :: "nat \<Rightarrow> vector \<Rightarrow> real" where
  "max_step_of ndof u = 100 * max (sqrt (sum_products ndof u u)) (real ndof)"

text \<open>Lines 140 to 156: one column of the finite-difference Jacobian, and all of them.\<close>

definition fd_column ::
  "ResidualFctPt \<Rightarrow> vector \<Rightarrow> real \<Rightarrow> nat \<Rightarrow> vector \<Rightarrow> nat \<Rightarrow>
   vector \<times> dense_double_matrix \<Rightarrow> vector \<times> dense_double_matrix" where
  "fd_column residual_fct params fd_step ndof residuals i uJ =
     (let u = fst uJ;
          backup = u ! i;
          u_pls = u[i := u ! i + fd_step];
          residuals_pls = residual_fct params u_pls;
          J = fold (\<lambda>j J. set_entry j i ((residuals_pls ! j - residuals ! j) / fd_step) J)
                [0..<ndof] (snd uJ)
      in (u_pls[i := backup], J))"

definition fd_jacobian ::
  "ResidualFctPt \<Rightarrow> vector \<Rightarrow> real \<Rightarrow> nat \<Rightarrow> vector \<Rightarrow>
   vector \<times> dense_double_matrix \<Rightarrow> vector \<times> dense_double_matrix" where
  "fd_jacobian residual_fct params fd_step ndof residuals uJ =
     fold (fd_column residual_fct params fd_step ndof residuals) [0..<ndof] uJ"

text \<open>Lines 175 to 183: the gradient of the merit function, \<open>J\<^sup>T r\<close>.\<close>

definition merit_gradient :: "nat \<Rightarrow> dense_double_matrix \<Rightarrow> vector \<Rightarrow> vector" where
  "merit_gradient ndof J residuals =
     fold (\<lambda>i g. g[i := fold (\<lambda>j s. s + entry J j i * residuals ! j) [0..<ndof] 0])
       [0..<ndof] (replicate ndof 0)"

text \<open>Lines 192 to 195 and lines 212 to 215.\<close>

definition negate_direction :: "nat \<Rightarrow> vector \<Rightarrow> vector" where
  "negate_direction ndof d = fold (\<lambda>i d. d[i := d ! i * (- 1)]) [0..<ndof] d"

definition direct_update :: "nat \<Rightarrow> vector \<Rightarrow> vector \<Rightarrow> vector" where
  "direct_update ndof d u = fold (\<lambda>i u. u[i := u ! i - d ! i]) [0..<ndof] u"

text \<open>How one pass of the \<^verbatim>\<open>for\<close> loop ends: it falls through to the next pass, it
  returns from the function, or an exception leaves the function.\<close>

datatype flow = Continue solver_state | Return solver_state | Throw error solver_state

text \<open>
  Lines 90 to 216, one pass of the Newton loop. The locals declared before the loop
  (\<^verbatim>\<open>jacobian\<close>, \<^verbatim>\<open>residuals\<close>, \<^verbatim>\<open>gradient\<close>, \<^verbatim>\<open>newton_direction\<close>,
  \<^verbatim>\<open>half_residual_squared\<close>, \<^verbatim>\<open>max_step\<close>) are written in a pass before that pass reads
  them, so they are local to the pass here. Printing under \<^verbatim>\<open>Doc_Progress\<close> has no
  effect on the state and is left out. \<open>None\<close> is a line search that never returns.
\<close>

definition newton_iteration ::
  "solver_config \<Rightarrow> ResidualFctPt \<Rightarrow> vector \<Rightarrow> JacobianFctPt option \<Rightarrow> LinearSolve \<Rightarrow>
   solver_state \<Rightarrow> flow option" where
  "newton_iteration cfg residual_fct params jacobian_fct linear_solve st =
     (let u = unknowns st;
          ndof = length u;
          residuals = residual_fct params u;
          half_residual_squared =
            (if Use_step_length_control cfg then half_sum_squares ndof residuals else 0);
          max_step = (if Use_step_length_control cfg then max_step_of ndof u else 0)
      in case max_res_of residuals of
           None \<Rightarrow> Some (Throw DerefEnd st)
         | Some max_res \<Rightarrow>
             if max_res < Tol cfg then Some (Return st)
             else
               let st1 = st\<lparr>N_iter_taken := N_iter_taken st + 1\<rparr>;
                   uJ = (case jacobian_fct of
                           None \<Rightarrow> fd_jacobian residual_fct params (FD_step cfg) ndof residuals
                                     (u, DenseDoubleMatrix ndof)
                         | Some jf \<Rightarrow> (u, jf params u));
                   u1 = fst uJ;
                   jacobian = snd uJ;
                   gradient = (if Use_step_length_control cfg
                               then merit_gradient ndof jacobian residuals
                               else replicate ndof 0)
               in (case linear_solve jacobian residuals of
                    None \<Rightarrow> Some (Throw LinearSolverError (st1\<lparr>unknowns := u1\<rparr>))
                  | Some newton_direction \<Rightarrow>
                      if Use_step_length_control cfg then
                        (case line_search u1 half_residual_squared gradient residual_fct params
                                \<lparr>ls_newton_dir = negate_direction ndof newton_direction,
                                 ls_x = u1,
                                 ls_half_residual_squared = half_residual_squared,
                                 ls_warnings = warnings st1\<rparr> max_step of
                           None \<Rightarrow> None
                         | Some (Inl (e, s)) \<Rightarrow>
                             Some (Throw e (st1\<lparr>unknowns := ls_x s, warnings := ls_warnings s\<rparr>))
                         | Some (Inr s) \<Rightarrow>
                             Some (Continue (st1\<lparr>unknowns := ls_x s, warnings := ls_warnings s\<rparr>)))
                      else
                        Some (Continue (st1\<lparr>unknowns := direct_update ndof newton_direction u1\<rparr>))))"

text \<open>Lines 88 to 226: the loop runs while \<^verbatim>\<open>iloop < Max_iter\<close>; the first argument
  counts the passes that remain. After the last pass the error is thrown.\<close>

fun newton_loop ::
  "nat \<Rightarrow> solver_config \<Rightarrow> ResidualFctPt \<Rightarrow> vector \<Rightarrow> JacobianFctPt option \<Rightarrow> LinearSolve \<Rightarrow>
   solver_state \<Rightarrow> (error \<times> solver_state + solver_state) option" where
  "newton_loop 0 cfg residual_fct params jacobian_fct linear_solve st =
     Some (Inl (ConvergenceFailure (Max_iter cfg), st))"
| "newton_loop (Suc k) cfg residual_fct params jacobian_fct linear_solve st =
     (case newton_iteration cfg residual_fct params jacobian_fct linear_solve st of
        None \<Rightarrow> None
      | Some (Return st') \<Rightarrow> Some (Inr st')
      | Some (Throw e st') \<Rightarrow> Some (Inl (e, st'))
      | Some (Continue st') \<Rightarrow>
          newton_loop k cfg residual_fct params jacobian_fct linear_solve st')"

text \<open>\<^verbatim>\<open>black_box_fd_newton_solve\<close>, lines 67 to 227.\<close>

definition black_box_fd_newton_solve ::
  "solver_config \<Rightarrow> ResidualFctPt \<Rightarrow> vector \<Rightarrow> JacobianFctPt option \<Rightarrow> LinearSolve \<Rightarrow>
   solver_state \<Rightarrow> (error \<times> solver_state + solver_state) option" where
  "black_box_fd_newton_solve cfg residual_fct params jacobian_fct linear_solve st =
     newton_loop (Max_iter cfg) cfg residual_fct params jacobian_fct linear_solve
       (st\<lparr>N_iter_taken := 0\<rparr>)"

subsection \<open>Definitions used to state the properties\<close>

text \<open>
  From the specification's words, for comparison with \<open>lambda_min_of\<close>: the minimum
  admissible step multiplier is the convergence tolerance on \<open>x\<close> divided by the maximum
  over \<open>i\<close> of \<open>|direction\<^sub>i| / max(|x_old\<^sub>i|, 1)\<close>.
\<close>

definition lambda_min_spec :: "nat \<Rightarrow> vector \<Rightarrow> vector \<Rightarrow> real" where
  "lambda_min_spec n direction x_old =
     convergence_tol_on_x / Max ((\<lambda>i. \<bar>direction ! i\<bar> / max \<bar>x_old ! i\<bar> 1) ` {..<n})"


text \<open>An exact linear solver for one unknown, which throws on a singular matrix: an
  instance of the collaborator \<^verbatim>\<open>jacobian.solve\<close> for the examples.\<close>

definition solve_1x1 :: LinearSolve where
  "solve_1x1 J r = (if entry J 0 0 = 0 then None else Some [r ! 0 / entry J 0 0])"

section \<open>Properties\<close>

subsection \<open>The loops over vector entries, in closed form\<close>



lemma fold_update_upt:
  "m \<le> length d \<Longrightarrow>
   fold (\<lambda>i d. d[i := h i (d ! i)]) [0..<m] d = map (\<lambda>i. h i (d ! i)) [0..<m] @ drop m d"
proof (induction m)
  case 0
  then show ?case by simp
next
  case (Suc m)
  then have m: "m < length d" by simp
  have "fold (\<lambda>i d. d[i := h i (d ! i)]) [0..<Suc m] d =
        (map (\<lambda>i. h i (d ! i)) [0..<m] @ drop m d)[m := h m ((map (\<lambda>i. h i (d ! i)) [0..<m] @ drop m d) ! m)]"
    using Suc by simp
  also have "(map (\<lambda>i. h i (d ! i)) [0..<m] @ drop m d) ! m = d ! m"
    using m by (simp add: nth_append)
  also have "(map (\<lambda>i. h i (d ! i)) [0..<m] @ drop m d)[m := h m (d ! m)] =
        map (\<lambda>i. h i (d ! i)) [0..<m] @ (drop m d)[0 := h m (d ! m)]"
    by (simp add: list_update_append)
  also have "(drop m d)[0 := h m (d ! m)] = h m (d ! m) # drop (Suc m) d"
    using m by (simp add: Cons_nth_drop_Suc [symmetric])
  finally show ?case by simp
qed

lemma fold_update_all:
  "length d = n \<Longrightarrow> fold (\<lambda>i d. d[i := h i (d ! i)]) [0..<n] d = map (\<lambda>i. h i (d ! i)) [0..<n]"
  using fold_update_upt [of n d h] by simp

lemma trial_point_eq:
  "length x = n \<Longrightarrow> trial_point n x_old lambda d x = map (\<lambda>i. x_old ! i + lambda * d ! i) [0..<n]"
  unfolding trial_point_def using fold_update_all [of x n "\<lambda>i _. x_old ! i + lambda * d ! i"] by simp

lemma restore_point_eq:
  "length x = n \<Longrightarrow> length x_old = n \<Longrightarrow> restore_point n x_old x = x_old"
  unfolding restore_point_def using fold_update_all [of x n "\<lambda>i _. x_old ! i"]
  by (metis map_nth)

lemma fold_max_upt:
  "fold (\<lambda>i t. if g i > t then g i else t) [0..<n] (a::real) = Max (insert a (g ` {..<n}))"
proof (induction n)
  case 0
  then show ?case by simp
next
  case (Suc n)
  define M where "M = Max (insert a (g ` {..<n}))"
  have "Max (insert a (g ` {..<Suc n})) = Max (insert (g n) (insert a (g ` {..<n})))"
    by (simp add: lessThan_Suc insert_commute)
  also have "\<dots> = max (g n) M"
    unfolding M_def by (rule Max_insert) simp_all
  finally have lhs: "Max (insert a (g ` {..<Suc n})) = max (g n) M" .
  from Suc have "fold (\<lambda>i t. if g i > t then g i else t) [0..<n] a = M"
    by (simp only: M_def)
  then have "fold (\<lambda>i t. if g i > t then g i else t) [0..<Suc n] a = (if g n > M then g n else M)"
    by simp
  also have "\<dots> = max (g n) M"
    by (simp add: max_def)
  finally show ?case using lhs by simp
qed

lemma max_rel_step_eq:
  "max_rel_step n d x_old = Max (insert 0 ((\<lambda>i. \<bar>d ! i\<bar> / max \<bar>x_old ! i\<bar> 1) ` {..<n}))"
  unfolding max_rel_step_def Let_def by (rule fold_max_upt)









lemma length_trial_point [simp]: "length (trial_point n x_old l d x) = length x"
proof -
  have "length (fold (\<lambda>i x. x[i := h i]) is x) = length x" for h :: "nat \<Rightarrow> real" and "is"
    by (induction "is" arbitrary: x) simp_all
  then show ?thesis by (simp add: trial_point_def)
qed

lemma backtrack_exit:
  "backtrack rf params n x_old f_old slope lmin lambda laux faux s = Some s' \<Longrightarrow>
   length (ls_x s) = n \<Longrightarrow>
   \<exists>l. (l < lmin \<and>
          s' = s\<lparr>ls_x := restore_point n x_old (trial_point n x_old l (ls_newton_dir s) (ls_x s)),
                 ls_half_residual_squared :=
                   half_sum_squares n (rf params (trial_point n x_old l (ls_newton_dir s) (ls_x s))),
                 ls_warnings := ls_warnings s @ [stagnation_warning]\<rparr>) \<or>
        (\<not> l < lmin \<and>
          half_sum_squares n (rf params (trial_point n x_old l (ls_newton_dir s) (ls_x s)))
            \<le> f_old + min_fct_decrease * l * slope \<and>
          s' = s\<lparr>ls_x := trial_point n x_old l (ls_newton_dir s) (ls_x s),
                 ls_half_residual_squared :=
                   half_sum_squares n (rf params (trial_point n x_old l (ls_newton_dir s) (ls_x s)))\<rparr>)"
proof (induction rf params n x_old f_old slope lmin lambda laux faux s s'
       rule: backtrack.raw_induct [rotated 1, consumes 1])
  case (1 backtrack rf params n x_old f_old slope lmin lambda laux faux s s')
  define x where "x = trial_point n x_old lambda (ls_newton_dir s) (ls_x s)"
  define f where "f = half_sum_squares n (rf params x)"
  have len: "length x = n" using "1.prems" by (simp add: x_def)
  have tp: "trial_point n x_old l (ls_newton_dir s) x = trial_point n x_old l (ls_newton_dir s) (ls_x s)" for l
    using len "1.prems" by (simp add: trial_point_eq)
  consider (stag) "lambda < lmin"
    | (acc) "\<not> lambda < lmin" "f \<le> f_old + min_fct_decrease * lambda * slope"
    | (rej) "\<not> lambda < lmin" "\<not> f \<le> f_old + min_fct_decrease * lambda * slope"
    by blast
  then show ?case
  proof cases
    case stag
    then show ?thesis using "1.hyps" by (auto simp: Let_def x_def f_def)
  next
    case acc
    then show ?thesis using "1.hyps" by (auto simp: Let_def x_def f_def)
  next
    case rej
    then have "backtrack rf params n x_old f_old slope lmin
        (next_lambda lambda laux faux f f_old slope) lambda f
        (s\<lparr>ls_x := x, ls_half_residual_squared := f\<rparr>) = Some s'"
      using "1.hyps" by (simp add: Let_def x_def f_def)
    from "1.IH" [OF this] len show ?thesis by (simp add: tp)
  qed
qed
subsection \<open>Termination of the line search\<close>



subsection \<open>What the line search throws, and what it returns\<close>

lemma line_search_throws:
  "line_search x_old f_old gradient rf params s stpmax = Some (Inl (e, s')) \<longleftrightarrow>
   0 \<le> sum_products (length x_old) gradient
         (cap_newton_dir (length x_old) stpmax (ls_newton_dir s)) \<and>
   e = RoundoffError (sum_products (length x_old) gradient
         (cap_newton_dir (length x_old) stpmax (ls_newton_dir s))) \<and>
   s' = s\<lparr>ls_newton_dir := cap_newton_dir (length x_old) stpmax (ls_newton_dir s)\<rparr>"
  by (auto simp: line_search_def Let_def)

lemma line_search_returns:
  "line_search x_old f_old gradient rf params s stpmax = Some (Inr s') \<longleftrightarrow>
   sum_products (length x_old) gradient
         (cap_newton_dir (length x_old) stpmax (ls_newton_dir s)) < 0 \<and>
   backtrack rf params (length x_old) x_old f_old
     (sum_products (length x_old) gradient
         (cap_newton_dir (length x_old) stpmax (ls_newton_dir s)))
     (lambda_min_of (length x_old) (cap_newton_dir (length x_old) stpmax (ls_newton_dir s)) x_old)
     1 0 0 (s\<lparr>ls_newton_dir := cap_newton_dir (length x_old) stpmax (ls_newton_dir s)\<rparr>) = Some s'"
  by (auto simp: line_search_def Let_def)

lemma max_rel_step_spec:
  assumes "0 < n"
  shows "max_rel_step n d x_old = Max ((\<lambda>i. \<bar>d ! i\<bar> / max \<bar>x_old ! i\<bar> 1) ` {..<n})"
proof -
  let ?A = "(\<lambda>i. \<bar>d ! i\<bar> / max \<bar>x_old ! i\<bar> 1) ` {..<n}"
  have ne: "?A \<noteq> {}" using assms by auto
  have "0 \<le> \<bar>d ! 0\<bar> / max \<bar>x_old ! 0\<bar> 1" by simp
  also have "\<dots> \<le> Max ?A" using assms by (intro Max_ge) auto
  finally have "0 \<le> Max ?A" .
  moreover have "Max (insert 0 ?A) = max 0 (Max ?A)"
    using ne by (intro Max_insert) simp_all
  ultimately show ?thesis by (simp add: max_rel_step_eq)
qed

lemma lambda_min_of_spec:
  "0 < n \<Longrightarrow> lambda_min_of n d x_old = lambda_min_spec n d x_old"
  by (simp add: lambda_min_of_def lambda_min_spec_def max_rel_step_spec)

lemma backtrack_stagnation:
  "lambda < lambda_min \<Longrightarrow>
   backtrack rf params n x_old f_old slope lambda_min lambda lambda_aux f_aux s =
     Some (s\<lparr>ls_x := restore_point n x_old (trial_point n x_old lambda (ls_newton_dir s) (ls_x s)),
             ls_half_residual_squared :=
               half_sum_squares n (rf params (trial_point n x_old lambda (ls_newton_dir s) (ls_x s))),
             ls_warnings := ls_warnings s @ [stagnation_warning]\<rparr>)"
  by (subst backtrack.simps) (simp add: Let_def)

lemma backtrack_accept:
  "\<not> lambda < lambda_min \<Longrightarrow>
   half_sum_squares n (rf params (trial_point n x_old lambda (ls_newton_dir s) (ls_x s)))
     \<le> f_old + min_fct_decrease * lambda * slope \<Longrightarrow>
   backtrack rf params n x_old f_old slope lambda_min lambda lambda_aux f_aux s =
     Some (s\<lparr>ls_x := trial_point n x_old lambda (ls_newton_dir s) (ls_x s),
             ls_half_residual_squared :=
               half_sum_squares n (rf params (trial_point n x_old lambda (ls_newton_dir s) (ls_x s)))\<rparr>)"
  by (subst backtrack.simps) (simp add: Let_def)

lemma line_search_return_cases:
  assumes "line_search x_old f_old gradient rf params s stpmax = Some (Inr s')"
    and "length (ls_x s) = length x_old"
  shows "\<exists>l. ls_newton_dir s' = cap_newton_dir (length x_old) stpmax (ls_newton_dir s) \<and>
     ls_half_residual_squared s' =
        half_sum_squares (length x_old)
          (rf params (map (\<lambda>i. x_old ! i + l * ls_newton_dir s' ! i) [0..<length x_old])) \<and>
     (l < lambda_min_of (length x_old) (ls_newton_dir s') x_old \<and>
        ls_x s' = x_old \<and> ls_warnings s' = ls_warnings s @ [stagnation_warning] \<or>
      \<not> l < lambda_min_of (length x_old) (ls_newton_dir s') x_old \<and>
        ls_half_residual_squared s' \<le> f_old + min_fct_decrease * l *
           sum_products (length x_old) gradient (ls_newton_dir s') \<and>
        ls_x s' = map (\<lambda>i. x_old ! i + l * ls_newton_dir s' ! i) [0..<length x_old] \<and>
        ls_warnings s' = ls_warnings s)"
proof -
  let ?n = "length x_old"
  let ?d = "cap_newton_dir ?n stpmax (ls_newton_dir s)"
  let ?s1 = "s\<lparr>ls_newton_dir := ?d\<rparr>"
  from assms(1) have bt: "backtrack rf params ?n x_old f_old (sum_products ?n gradient ?d)
     (lambda_min_of ?n ?d x_old) 1 0 0 ?s1 = Some s'"
    by (simp add: line_search_returns)
  have len: "length (ls_x ?s1) = ?n" using assms(2) by simp
  from backtrack_exit [OF bt len] obtain l where
    l: "(l < lambda_min_of ?n ?d x_old \<and>
          s' = ?s1\<lparr>ls_x := restore_point ?n x_old (trial_point ?n x_old l (ls_newton_dir ?s1) (ls_x ?s1)),
                 ls_half_residual_squared :=
                   half_sum_squares ?n (rf params (trial_point ?n x_old l (ls_newton_dir ?s1) (ls_x ?s1))),
                 ls_warnings := ls_warnings ?s1 @ [stagnation_warning]\<rparr>) \<or>
        (\<not> l < lambda_min_of ?n ?d x_old \<and>
          half_sum_squares ?n (rf params (trial_point ?n x_old l (ls_newton_dir ?s1) (ls_x ?s1)))
            \<le> f_old + min_fct_decrease * l * sum_products ?n gradient ?d \<and>
          s' = ?s1\<lparr>ls_x := trial_point ?n x_old l (ls_newton_dir ?s1) (ls_x ?s1),
                 ls_half_residual_squared :=
                   half_sum_squares ?n (rf params (trial_point ?n x_old l (ls_newton_dir ?s1) (ls_x ?s1)))\<rparr>)"
    by blast
  have tp: "trial_point ?n x_old l ?d (ls_x s) = map (\<lambda>i. x_old ! i + l * ?d ! i) [0..<?n]"
    using assms(2) by (rule trial_point_eq)
  have rp: "restore_point ?n x_old (trial_point ?n x_old l ?d (ls_x s)) = x_old"
    by (rule restore_point_eq) (simp_all add: assms(2))
  from l show ?thesis
  proof
    assume "l < lambda_min_of ?n ?d x_old \<and>
          s' = ?s1\<lparr>ls_x := restore_point ?n x_old (trial_point ?n x_old l (ls_newton_dir ?s1) (ls_x ?s1)),
                 ls_half_residual_squared :=
                   half_sum_squares ?n (rf params (trial_point ?n x_old l (ls_newton_dir ?s1) (ls_x ?s1))),
                 ls_warnings := ls_warnings ?s1 @ [stagnation_warning]\<rparr>"
    then show ?thesis using tp rp by (intro exI [of _ l]) simp
  next
    assume "\<not> l < lambda_min_of ?n ?d x_old \<and>
          half_sum_squares ?n (rf params (trial_point ?n x_old l (ls_newton_dir ?s1) (ls_x ?s1)))
            \<le> f_old + min_fct_decrease * l * sum_products ?n gradient ?d \<and>
          s' = ?s1\<lparr>ls_x := trial_point ?n x_old l (ls_newton_dir ?s1) (ls_x ?s1),
                 ls_half_residual_squared :=
                   half_sum_squares ?n (rf params (trial_point ?n x_old l (ls_newton_dir ?s1) (ls_x ?s1)))\<rparr>"
    then show ?thesis using tp by (intro exI [of _ l]) simp
  qed
qed

lemma sqrt_tiny: "sqrt (1 / 10000000000000000000000000000000000) = 1 / 10 ^ 17"
  by (rule real_sqrt_unique) (simp_all add: power2_eq_square)


lemma ex_accept:
  "line_search [0] (1 / 2) [1] (\<lambda>p u. map (\<lambda>x. x + 1) u) []
      \<lparr>ls_newton_dir = [- 1], ls_x = [0], ls_half_residual_squared = 1 / 2,
       ls_warnings = []\<rparr> 100 =
    Some (Inr \<lparr>ls_newton_dir = [- 1], ls_x = [- 1], ls_half_residual_squared = 0,
       ls_warnings = []\<rparr>)"
  by (simp add: line_search_def Let_def cap_newton_dir_def sum_products_def lambda_min_of_def
      max_rel_step_def convergence_tol_on_x_def backtrack_accept trial_point_def
      half_sum_squares_def min_fct_decrease_def)

lemma ex_roundoff:
  "line_search [0] (1 / 2) [1] (\<lambda>p u. map (\<lambda>x. x + 1) u) []
      \<lparr>ls_newton_dir = [1], ls_x = [0], ls_half_residual_squared = 1 / 2,
       ls_warnings = []\<rparr> 100 =
    Some (Inl (RoundoffError 1, \<lparr>ls_newton_dir = [1], ls_x = [0], ls_half_residual_squared = 1 / 2,
       ls_warnings = []\<rparr>))"
  by (simp add: line_search_def Let_def cap_newton_dir_def sum_products_def)

text \<open>
  Claim C4. \<^verbatim>\<open>line_search\<close> throws the roundoff error if and only if the slope, the
  product of the gradient and the direction computed after the direction has been capped,
  is not negative; it then carries that slope, and the in/out arguments are the entry
  ones with the capped direction. For a negative slope nothing is thrown.
\<close>

theorem line_search_roundoff_iff:
  "line_search x_old f_old gradient rf params s stpmax = Some (Inl (e, s')) \<longleftrightarrow>
   0 \<le> sum_products (length x_old) gradient
         (cap_newton_dir (length x_old) stpmax (ls_newton_dir s)) \<and>
   e = RoundoffError (sum_products (length x_old) gradient
         (cap_newton_dir (length x_old) stpmax (ls_newton_dir s))) \<and>
   s' = s\<lparr>ls_newton_dir := cap_newton_dir (length x_old) stpmax (ls_newton_dir s)\<rparr>"
  by (rule line_search_throws)

theorem line_search_roundoff_iff_witness:
  "0 \<le> sum_products (length [0 :: real]) [1]
      (cap_newton_dir (length [0 :: real]) 100 [1]) \<and>
   line_search [0] (1 / 2) [1] (\<lambda>p u. map (\<lambda>x. x + 1) u) []
      \<lparr>ls_newton_dir = [1], ls_x = [0], ls_half_residual_squared = 1 / 2,
       ls_warnings = []\<rparr> 100 =
    Some (Inl (RoundoffError 1, \<lparr>ls_newton_dir = [1], ls_x = [0], ls_half_residual_squared = 1 / 2,
       ls_warnings = []\<rparr>))"
proof -
  have slope: "sum_products (length [0 :: real]) [1] (cap_newton_dir (length [0 :: real]) 100 [1]) = 1"
    by (simp add: sum_products_def cap_newton_dir_def)
  show ?thesis
    using line_search_roundoff_iff [of "[0]" "1 / 2" "[1]" "\<lambda>p u. map (\<lambda>x. x + 1) u" "[]"
        "\<lparr>ls_newton_dir = [1], ls_x = [0], ls_half_residual_squared = 1 / 2, ls_warnings = []\<rparr>"
        100 "RoundoffError 1"
        "\<lparr>ls_newton_dir = [1], ls_x = [0], ls_half_residual_squared = 1 / 2, ls_warnings = []\<rparr>"]
    by (simp add: slope) (simp add: cap_newton_dir_def sum_products_def)
qed

text \<open>
  Claim C10. When \<^verbatim>\<open>line_search\<close> throws the roundoff error, \<open>x\<close> (and the merit value
  and the warnings) are exactly as on entry; only the direction may have changed, by the
  capping. The residual function has not been called: the outcome is the same for every
  residual function.
\<close>

theorem line_search_roundoff_state:
  assumes "line_search x_old f_old gradient rf params s stpmax = Some (Inl (e, s'))"
  shows "ls_x s' = ls_x s \<and>
         ls_half_residual_squared s' = ls_half_residual_squared s \<and>
         ls_warnings s' = ls_warnings s \<and>
         ls_newton_dir s' = cap_newton_dir (length x_old) stpmax (ls_newton_dir s) \<and>
         (\<forall>rf'. line_search x_old f_old gradient rf' params s stpmax = Some (Inl (e, s')))"
  using assms by (simp add: line_search_throws)

theorem line_search_roundoff_state_witness:
  "ls_x \<lparr>ls_newton_dir = [1], ls_x = [0], ls_half_residual_squared = 1 / 2, ls_warnings = []\<rparr>
     = [0 :: real] \<and>
   (\<forall>rf'. line_search [0] (1 / 2) [1] rf' []
      \<lparr>ls_newton_dir = [1], ls_x = [0], ls_half_residual_squared = 1 / 2,
       ls_warnings = []\<rparr> 100 =
    Some (Inl (RoundoffError 1, \<lparr>ls_newton_dir = [1], ls_x = [0], ls_half_residual_squared = 1 / 2,
       ls_warnings = []\<rparr>)))"
  using line_search_roundoff_state [OF ex_roundoff] by simp

text \<open>
  Claim C9. For a non-empty \<open>x_old\<close>, \<^verbatim>\<open>line_search\<close> runs its loop with the minimum step
  multiplier of the specification's formula, \<open>10\<^sup>-\<^sup>1\<^sup>6\<close> divided by the largest
  \<open>|direction\<^sub>i| / max(|x_old\<^sub>i|, 1)\<close> of the capped direction; and a pass of the loop whose
  trial multiplier is strictly below it returns at once by the stagnation exit: \<open>x\<close> is
  \<open>x_old\<close> again and the warning is issued.
\<close>

theorem lambda_min_stagnation:
  assumes "x_old \<noteq> []"
  shows "line_search x_old f_old gradient rf params s stpmax =
      (let n = length x_old;
           d = cap_newton_dir n stpmax (ls_newton_dir s);
           slope = sum_products n gradient d
       in if slope \<ge> 0 then Some (Inl (RoundoffError slope, s\<lparr>ls_newton_dir := d\<rparr>))
          else map_option Inr
                 (backtrack rf params n x_old f_old slope (lambda_min_spec n d x_old) 1 0 0
                    (s\<lparr>ls_newton_dir := d\<rparr>))) \<and>
    (\<forall>lambda lambda_aux f_aux t sl.
       length (ls_x t) = length x_old \<longrightarrow>
       lambda < lambda_min_spec (length x_old) (ls_newton_dir t) x_old \<longrightarrow>
       backtrack rf params (length x_old) x_old f_old sl
          (lambda_min_spec (length x_old) (ls_newton_dir t) x_old) lambda lambda_aux f_aux t =
       Some (t\<lparr>ls_x := x_old,
               ls_half_residual_squared :=
                 half_sum_squares (length x_old)
                   (rf params (map (\<lambda>i. x_old ! i + lambda * ls_newton_dir t ! i)
                      [0..<length x_old])),
               ls_warnings := ls_warnings t @ [stagnation_warning]\<rparr>))"
proof -
  have n: "0 < length x_old" using assms by simp
  have 1: "line_search x_old f_old gradient rf params s stpmax =
      (let n = length x_old;
           d = cap_newton_dir n stpmax (ls_newton_dir s);
           slope = sum_products n gradient d
       in if slope \<ge> 0 then Some (Inl (RoundoffError slope, s\<lparr>ls_newton_dir := d\<rparr>))
          else map_option Inr
                 (backtrack rf params n x_old f_old slope (lambda_min_spec n d x_old) 1 0 0
                    (s\<lparr>ls_newton_dir := d\<rparr>)))"
    using n by (simp add: line_search_def Let_def lambda_min_of_spec)
  have 2: "backtrack rf params (length x_old) x_old f_old sl
          (lambda_min_spec (length x_old) (ls_newton_dir t) x_old) lambda lambda_aux f_aux t =
       Some (t\<lparr>ls_x := x_old,
               ls_half_residual_squared :=
                 half_sum_squares (length x_old)
                   (rf params (map (\<lambda>i. x_old ! i + lambda * ls_newton_dir t ! i)
                      [0..<length x_old])),
               ls_warnings := ls_warnings t @ [stagnation_warning]\<rparr>)"
    if "length (ls_x t) = length x_old"
      and "lambda < lambda_min_spec (length x_old) (ls_newton_dir t) x_old"
    for lambda lambda_aux f_aux t sl
    using that by (simp add: backtrack_stagnation trial_point_eq restore_point_eq)
  from 1 2 show ?thesis by blast
qed

theorem lambda_min_stagnation_witness:
  "[0 :: real] \<noteq> [] \<and>
   lambda_min_spec (length [0 :: real]) [- (1 / 10 ^ 17)] [0] = 10 \<and>
   backtrack (\<lambda>p u. map (\<lambda>x. 10 ^ 17 * x + 1) u) [] (length [0 :: real]) [0] (1 / 2) (- 1)
      (lambda_min_spec (length [0 :: real]) [- (1 / 10 ^ 17)] [0]) 1 0 0
      \<lparr>ls_newton_dir = [- (1 / 10 ^ 17)], ls_x = [0], ls_half_residual_squared = 1 / 2,
       ls_warnings = []\<rparr> =
    Some \<lparr>ls_newton_dir = [- (1 / 10 ^ 17)], ls_x = [0], ls_half_residual_squared = 0,
       ls_warnings = [stagnation_warning]\<rparr>"
proof -
  have h: "[0 :: real] \<noteq> []" by simp
  have l: "lambda_min_spec (length [0 :: real]) [- (1 / 10 ^ 17)] [0] = 10"
    by (simp add: lambda_min_spec_def convergence_tol_on_x_def lessThan_Suc)
  note T = lambda_min_stagnation [OF h, where rf = "\<lambda>p u. map (\<lambda>x. 10 ^ 17 * x + 1) u"
      and params = "[]" and f_old = "1 / 2", THEN conjunct2, rule_format,
      where t = "\<lparr>ls_newton_dir = [- (1 / 10 ^ 17)], ls_x = [0], ls_half_residual_squared = 1 / 2,
       ls_warnings = []\<rparr>" and lambda = 1 and sl = "- 1" and lambda_aux = 0 and f_aux = 0]
  from T h l show ?thesis
    by (simp add: half_sum_squares_def sum_products_def)
qed

text \<open>
  Claim C5. When \<^verbatim>\<open>line_search\<close> returns by the acceptance branch (it returns without
  having issued the warning), the returned \<open>x\<close> is \<open>x_old + lambda * direction\<close> for the
  accepted multiplier, the returned merit is half the sum of the squared residuals at
  that \<open>x\<close>, and it satisfies the sufficient-decrease inequality
  \<open>merit \<le> merit_old + 10\<^sup>-\<^sup>4 * lambda * slope\<close>.
\<close>

theorem line_search_accept_armijo:
  assumes "line_search x_old f_old gradient rf params s stpmax = Some (Inr s')"
    and "length (ls_x s) = length x_old"
    and "ls_warnings s' = ls_warnings s"
  shows "\<exists>lambda.
     ls_x s' = map (\<lambda>i. x_old ! i + lambda * ls_newton_dir s' ! i) [0..<length x_old] \<and>
     ls_half_residual_squared s' = half_sum_squares (length x_old) (rf params (ls_x s')) \<and>
     ls_half_residual_squared s' \<le>
       f_old + (1 / 10 ^ 4) * lambda * sum_products (length x_old) gradient (ls_newton_dir s') \<and>
     ls_newton_dir s' = cap_newton_dir (length x_old) stpmax (ls_newton_dir s)"
  using line_search_return_cases [OF assms(1,2)] assms(3)
  by (auto simp: min_fct_decrease_def)

theorem line_search_accept_armijo_witness:
  "\<exists>lambda. [- 1] = map (\<lambda>i. [0] ! i + lambda * [- 1] ! i) [0..<length [0 :: real]] \<and>
     (0 :: real) = half_sum_squares (length [0 :: real]) ((\<lambda>p u. map (\<lambda>x. x + 1) u) [] [- 1]) \<and>
     (0 :: real) \<le> 1 / 2 + (1 / 10 ^ 4) * lambda * sum_products (length [0 :: real]) [1] [- 1]"
proof -
  have len: "length (ls_x \<lparr>ls_newton_dir = [- 1], ls_x = [0],
      ls_half_residual_squared = 1 / 2, ls_warnings = []\<rparr>) = length [0 :: real]"
    by simp
  from line_search_accept_armijo [OF ex_accept len] show ?thesis
    by simp
qed




subsection \<open>Finite-difference Jacobian\<close>

lemma entry_fold_set_entry:
  "entry (fold (\<lambda>j J. set_entry j i (v j) J) [0..<m] J) j' i' =
     (if i' = i \<and> j' < m then v j' else entry J j' i')"
  by (induction m) (auto simp: set_entry_def less_Suc_eq)

lemma fst_fd_column: "fst (fd_column rf params h ndof residuals i (u, J)) = u"
  by (simp add: fd_column_def Let_def)

lemma entry_fd_column:
  "entry (snd (fd_column rf params h ndof residuals i (u, J))) j' i' =
     (if i' = i \<and> j' < ndof then (rf params (u[i := u ! i + h]) ! j' - residuals ! j') / h
      else entry J j' i')"
  by (simp add: fd_column_def Let_def entry_fold_set_entry)

lemma fd_columns:
  "fst (fold (fd_column rf params h ndof residuals) [0..<m] (u, J)) = u \<and>
   (\<forall>j' i'. entry (snd (fold (fd_column rf params h ndof residuals) [0..<m] (u, J))) j' i' =
     (if i' < m \<and> j' < ndof then (rf params (u[i' := u ! i' + h]) ! j' - residuals ! j') / h
      else entry J j' i'))"
proof (induction m)
  case 0
  then show ?case by simp
next
  case (Suc m)
  obtain u' J' where p: "fold (fd_column rf params h ndof residuals) [0..<m] (u, J) = (u', J')"
    by (cases "fold (fd_column rf params h ndof residuals) [0..<m] (u, J)")
  with Suc have u': "u' = u"
    and J': "\<And>j' i'. entry J' j' i' =
     (if i' < m \<and> j' < ndof then (rf params (u[i' := u ! i' + h]) ! j' - residuals ! j') / h
      else entry J j' i')"
    by simp_all
  have "fold (fd_column rf params h ndof residuals) [0..<Suc m] (u, J) =
        fd_column rf params h ndof residuals m (u, J')"
    using p u' by simp
  then show ?case
    by (auto simp: fst_fd_column entry_fd_column J' less_Suc_eq)
qed

lemma fst_fd_jacobian: "fst (fd_jacobian rf params h ndof residuals (u, J)) = u"
  using fd_columns [of rf params h ndof residuals ndof u J] by (simp add: fd_jacobian_def)

lemma entry_fd_jacobian:
  "i < ndof \<Longrightarrow> j < ndof \<Longrightarrow>
   entry (snd (fd_jacobian rf params h ndof residuals (u, J))) j i =
     (rf params (u[i := u ! i + h]) ! j - residuals ! j) / h"
  using fd_columns [of rf params h ndof residuals ndof u J] by (simp add: fd_jacobian_def)

text \<open>
  Claim C7. Without an analytic Jacobian, the Jacobian of a Newton step is built by
  finite differences: column \<open>i\<close> is the residual at the unknowns with component \<open>i\<close>
  increased by \<^verbatim>\<open>FD_step\<close>, minus the residual at the unknowns, divided by \<^verbatim>\<open>FD_step\<close>;
  and after the assembly the unknowns are what they were before it. So a pass of the
  driver without \<^verbatim>\<open>jacobian_fct\<close> is the pass with the finite-difference matrix as the
  analytic Jacobian.
\<close>

theorem fd_jacobian_columns:
  "fst (fd_jacobian rf params h ndof (rf params u) (u, J0)) = u \<and>
   (\<forall>i<ndof. \<forall>j<ndof.
      entry (snd (fd_jacobian rf params h ndof (rf params u) (u, J0))) j i =
        (rf params (u[i := u ! i + h]) ! j - rf params u ! j) / h) \<and>
   newton_iteration cfg rf params None linear_solve st =
     newton_iteration cfg rf params
       (Some (\<lambda>p v. snd (fd_jacobian rf p (FD_step cfg) (length v) (rf p v)
                           (v, DenseDoubleMatrix (length v))))) linear_solve st"
proof -
  have "newton_iteration cfg rf params None linear_solve st =
     newton_iteration cfg rf params
       (Some (\<lambda>p v. snd (fd_jacobian rf p (FD_step cfg) (length v) (rf p v)
                           (v, DenseDoubleMatrix (length v))))) linear_solve st"
    by (simp add: newton_iteration_def Let_def fst_fd_jacobian cong: option.case_cong if_cong)
  then show ?thesis
    by (simp add: fst_fd_jacobian entry_fd_jacobian)
qed

theorem fd_jacobian_columns_witness:
  "(0::nat) < 1 \<and>
   entry (snd (fd_jacobian (\<lambda>p v. map (\<lambda>x. x * x + 1) v) [] (1 / 10 ^ 8) 1
                 ((\<lambda>p v. map (\<lambda>x. x * x + 1) v) [] [3]) ([3], DenseDoubleMatrix 1))) 0 0 =
     6 + 1 / 10 ^ 8 \<and>
   fst (fd_jacobian (\<lambda>p v. map (\<lambda>x. x * x + 1) v) [] (1 / 10 ^ 8) 1
                 ((\<lambda>p v. map (\<lambda>x. x * x + 1) v) [] [3]) ([3], DenseDoubleMatrix 1)) = [3]"
  using fd_jacobian_columns [of "\<lambda>p v. map (\<lambda>x. x * x + 1) v" "[]" "1 / 10 ^ 8" 1 "[3]"
      "DenseDoubleMatrix 1" default_config solve_1x1
      "\<lparr>unknowns = [3], N_iter_taken = 0, warnings = []\<rparr>"]
  by (simp add: field_simps)

subsection \<open>The cap on the step length\<close>











subsection \<open>The Newton driver\<close>

lemma abs_fold_AbsCmp:
  "\<bar>fold (\<lambda>b largest. if AbsCmp largest b then b else largest) rs a\<bar> = fold max (map abs rs) \<bar>a\<bar>"
  by (induction rs arbitrary: a) (auto simp: AbsCmp_def max_def)

lemma max_res_of_eq:
  assumes "rs \<noteq> []"
  shows "max_res_of rs = Some (Max (abs ` set rs))"
proof -
  from assms obtain a as where rs: "rs = a # as" by (cases rs) auto
  have "Max (abs ` set rs) = Max (set (map abs (a # as)))" by (simp add: rs)
  also have "\<dots> = Max (set (\<bar>a\<bar> # map abs as))" by simp
  also have "\<dots> = fold max (map abs as) \<bar>a\<bar>" by (rule Max.set_eq_fold)
  finally show ?thesis by (simp add: max_res_of_def rs abs_fold_AbsCmp)
qed

lemma max_res_of_Nil: "max_res_of [] = None"
  by (simp add: max_res_of_def)

lemma newton_iteration_converged:
  assumes "max_res_of (rf params (unknowns st)) = Some m" "m < Tol cfg"
  shows "newton_iteration cfg rf params jf linear_solve st = Some (Return st)"
  using assms by (simp add: newton_iteration_def Let_def)








text \<open>
  Runs of the driver on one unknown, with the exact solver \<open>solve_1x1\<close> and the
  finite-difference Jacobian. For \<open>r(x) = x\<close> from \<open>x = 5\<close> the first pass lands on the
  root; with one pass allowed the loop ends there and the error is thrown, with two the
  second pass returns. The same problem with step-length control accepts the full step.
  For \<open>r(x) = 10\<^sup>1\<^sup>7 x + 1\<close> from \<open>x = 0\<close> with step-length control every pass ends in the
  stagnation exit of the line search and the unknowns never move.
\<close>

lemmas driver_eval =
  black_box_fd_newton_solve_def default_config_def newton_iteration_def Let_def
  max_res_of_def AbsCmp_def fd_jacobian_def fd_column_def set_entry_def DenseDoubleMatrix_def
  solve_1x1_def direct_update_def




lemma sqrt_25: "sqrt 25 = 5"
  by (rule real_sqrt_unique) simp_all

lemma ex_step_control:
  "black_box_fd_newton_solve (default_config\<lparr>Use_step_length_control := True\<rparr>) (\<lambda>p u. u) []
     None solve_1x1 \<lparr>unknowns = [5], N_iter_taken = 0, warnings = []\<rparr> =
   Some (Inr \<lparr>unknowns = [0], N_iter_taken = 1, warnings = []\<rparr>)"
  by (simp add: driver_eval eval_nat_numeral half_sum_squares_def sum_products_def max_step_of_def
      merit_gradient_def negate_direction_def line_search_def cap_newton_dir_def sqrt_25
      lambda_min_of_def max_rel_step_def convergence_tol_on_x_def backtrack_accept
      trial_point_def min_fct_decrease_def)

lemma ex_stuck:
  "black_box_fd_newton_solve (default_config\<lparr>Use_step_length_control := True, Max_iter := 2\<rparr>)
     (\<lambda>p u. map (\<lambda>x. 10 ^ 17 * x + 1) u) []
     None solve_1x1 \<lparr>unknowns = [0], N_iter_taken = 0, warnings = []\<rparr> =
   Some (Inl (ConvergenceFailure 2, \<lparr>unknowns = [0], N_iter_taken = 2,
      warnings = [stagnation_warning, stagnation_warning]\<rparr>))"
  by (simp add: driver_eval eval_nat_numeral half_sum_squares_def sum_products_def max_step_of_def
      merit_gradient_def negate_direction_def line_search_def cap_newton_dir_def sqrt_tiny
      lambda_min_of_def max_rel_step_def convergence_tol_on_x_def backtrack_stagnation
      trial_point_def restore_point_def min_fct_decrease_def)




text \<open>
  Claim C2. When \<^verbatim>\<open>Max_iter\<close> is positive, the unknowns are not empty and the maximum
  absolute value of their residual is below \<^verbatim>\<open>Tol\<close>, the call returns at once with
  \<^verbatim>\<open>N_iter_taken = 0\<close> and the unknowns unchanged, whatever the Jacobian function and the
  linear solver are (neither is called); and a second call on the result returns the
  same state.
\<close>

theorem newton_solve_converged_start:
  assumes "0 < Max_iter cfg"
    and "unknowns st \<noteq> []"
    and "length (rf params (unknowns st)) = length (unknowns st)"
    and "Max (abs ` set (rf params (unknowns st))) < Tol cfg"
  shows "(\<forall>jf linear_solve.
           black_box_fd_newton_solve cfg rf params jf linear_solve st =
             Some (Inr (st\<lparr>N_iter_taken := 0\<rparr>))) \<and>
         (\<forall>jf linear_solve.
           black_box_fd_newton_solve cfg rf params jf linear_solve (st\<lparr>N_iter_taken := 0\<rparr>) =
             Some (Inr (st\<lparr>N_iter_taken := 0\<rparr>)))"
proof -
  from assms(2,3) have ne: "rf params (unknowns st) \<noteq> []" by auto
  have conv: "newton_iteration cfg rf params jf linear_solve (st\<lparr>N_iter_taken := 0\<rparr>) =
      Some (Return (st\<lparr>N_iter_taken := 0\<rparr>))" for jf linear_solve
    by (rule newton_iteration_converged [where m = "Max (abs ` set (rf params (unknowns st)))"])
       (simp_all add: max_res_of_eq [OF ne] assms(4))
  from assms(1) obtain k where k: "Max_iter cfg = Suc k" by (cases "Max_iter cfg") auto
  show ?thesis by (simp add: black_box_fd_newton_solve_def k conv)
qed

theorem newton_solve_converged_start_witness:
  "0 < Max_iter default_config \<and>
   unknowns \<lparr>unknowns = [0 :: real], N_iter_taken = 3, warnings = []\<rparr> \<noteq> [] \<and>
   Max (abs ` set ((\<lambda>p u. u) [] [0 :: real])) < Tol default_config \<and>
   black_box_fd_newton_solve default_config (\<lambda>p u. u) [] None (\<lambda>J r. None)
     \<lparr>unknowns = [0], N_iter_taken = 3, warnings = []\<rparr> =
   Some (Inr \<lparr>unknowns = [0], N_iter_taken = 0, warnings = []\<rparr>)"
proof -
  have a: "0 < Max_iter default_config" by (simp add: default_config_def)
  have b: "unknowns \<lparr>unknowns = [0 :: real], N_iter_taken = 3, warnings = []\<rparr> \<noteq> []" by simp
  have c: "length ((\<lambda>p u. u) ([] :: real list)
             (unknowns \<lparr>unknowns = [0 :: real], N_iter_taken = 3, warnings = []\<rparr>)) =
           length (unknowns \<lparr>unknowns = [0 :: real], N_iter_taken = 3, warnings = []\<rparr>)" by simp
  have d: "Max (abs ` set ((\<lambda>p u. u) ([] :: real list)
             (unknowns \<lparr>unknowns = [0 :: real], N_iter_taken = 3, warnings = []\<rparr>)))
           < Tol default_config" by (simp add: default_config_def)
  from newton_solve_converged_start [where rf = "\<lambda>p u. u" and params = "[]", OF a b c d] a b d
  show ?thesis by simp
qed

end
